theory Spec2Isabelle
  imports Main "HOL-Library.Sublist"
begin

section \<open>Data model\<close>

text \<open>
  The development follows \<^verbatim>\<open>main.go\<close>; \<^verbatim>\<open>process.go\<close> holds a second copy of
  the same functions over the same data with other field names (\<^verbatim>\<open>Owner\<close> for
  \<^verbatim>\<open>Name\<close>, \<^verbatim>\<open>ParentIdx\<close>, \<^verbatim>\<open>ChildIdx\<close>, \<^verbatim>\<open>SisterIdx\<close> for the three links,
  \<^verbatim>\<open>AOption\<close> for \<^verbatim>\<open>ShowAll\<close>, \<^verbatim>\<open>SearchOwner\<close>, \<^verbatim>\<open>SearchPid\<close>, \<^verbatim>\<open>SearchStr\<close> for
  \<^verbatim>\<open>Name\<close>, \<^verbatim>\<open>IPid\<close>, \<^verbatim>\<open>Str\<close>, and a global \<^verbatim>\<open>atLDepth\<close> for \<^verbatim>\<open>config.AtLDepth\<close>).
  Where the two copies differ in behaviour, the second one is modelled separately
  under a name that starts with \<open>process_\<close>.

  Go's \<^verbatim>\<open>int\<close> and \<^verbatim>\<open>int64\<close> are modelled as \<^typ>\<open>int\<close>: identifiers and indices are
  only compared and stored, and the depth counter moves by one per call. A Go string
  is a byte sequence, modelled as \<^typ>\<open>string\<close>; \<^verbatim>\<open>len\<close> is \<^const>\<open>length\<close>.
\<close>

text \<open>\<^verbatim>\<open>type TreeChars struct\<close>. The field \<^verbatim>\<open>P\<close> is written \<open>Pp\<close>.\<close>

record TreeChars =
  S2 :: string
  Pp :: string
  PGL :: string
  NPGL :: string
  BarC :: string
  Bar :: string
  BarL :: string
  SG :: string
  EG :: string
  Init :: string

text \<open>\<^verbatim>\<open>type Process struct\<close>. The links are indices into the store, \<open>-1\<close> for none.\<close>

record Process =
  UID :: int
  PID :: int
  PPID :: int
  PGID :: int
  Name :: string
  Cmd :: string
  Print :: bool
  Parent :: int
  Child :: int
  Sister :: int
  ThCount :: int

text \<open>\<^verbatim>\<open>type Config struct\<close>; its \<^verbatim>\<open>TreeChar\<close> pointer is the character set pointed at.\<close>

record Config =
  ShowAll :: bool
  SOption :: bool
  UOption :: bool
  Name :: string
  Str :: string
  IPid :: int
  Input :: string
  AtLDepth :: int
  MaxLDepth :: int
  Compress :: bool
  Debug :: bool
  Graphics :: int
  Wide :: bool
  Columns :: int
  TreeChar :: TreeChars

text \<open>
  What can stop a run: an index outside the store or a slice bound outside the string
  (Go panics), and the fatal exit of root selection.
\<close>

datatype error = IndexOutOfRange | SliceBoundsOutOfRange | NoRootProcess

text \<open>
  A run of a function that loops on the links of a store gives \<open>None\<close> when the fuel
  is used up (the Go code would still be running), \<open>Some (Inl e)\<close> when it stops with
  \<open>e\<close>, and \<open>Some (Inr s)\<close> when it returns \<open>s\<close>.
\<close>

type_synonym 'a run = "(error + 'a) option"

text \<open>\<^verbatim>\<open>procs[idx]\<close> is defined for \<open>0 \<le> idx < len(procs)\<close> and panics otherwise.\<close>

definition valid :: "Process list \<Rightarrow> int \<Rightarrow> bool" where
  "valid ps idx \<longleftrightarrow> 0 \<le> idx \<and> idx < int (length ps)"

text \<open>The four character sets of \<^verbatim>\<open>treeChars\<close>, byte by byte.\<close>

definition bytes :: "nat list \<Rightarrow> string" where
  "bytes ns = map char_of ns"

definition treeChars :: "TreeChars list" where
  "treeChars =
    [\<lparr>S2 = ''--'', Pp = ''-+'', PGL = ''='', NPGL = ''-'', BarC = ''|'', Bar = ''|'',
      BarL = [CHR 0x5C], SG = [], EG = [], Init = []\<rparr>,
     \<lparr>S2 = bytes [196, 196], Pp = bytes [196, 194], PGL = bytes [250], NPGL = bytes [196],
      BarC = bytes [195], Bar = bytes [179], BarL = bytes [192], SG = [], EG = [], Init = []\<rparr>,
     \<lparr>S2 = ''qq'', Pp = ''qw'', PGL = [CHR 0x60], NPGL = ''q'', BarC = ''t'', Bar = ''x'',
      BarL = ''m'', SG = bytes [14], EG = bytes [15],
      Init = bytes [27] @ ''(B'' @ bytes [27] @ '')0''\<rparr>,
     \<lparr>S2 = bytes [226, 148, 128, 226, 148, 128], Pp = bytes [226, 148, 128, 226, 148, 172],
      PGL = ''='', NPGL = bytes [226, 148, 128], BarC = bytes [226, 148, 156],
      Bar = bytes [226, 148, 130], BarL = bytes [226, 148, 148], SG = [], EG = [], Init = []\<rparr>]"

definition GraphicsASCII :: nat where
  "GraphicsASCII = 0"

text \<open>The configuration after \<^verbatim>\<open>init()\<close> and the flag defaults (\<^verbatim>\<open>--pid\<close> is \<open>-1\<close>).\<close>

definition initConfig :: Config where
  "initConfig =
    \<lparr>ShowAll = True, SOption = False, UOption = False, Name = [], Str = [], IPid = - 1,
     Input = [], AtLDepth = 0, MaxLDepth = 100, Compress = False, Debug = False,
     Graphics = 0, Wide = False, Columns = 0, TreeChar = treeChars ! GraphicsASCII\<rparr>"

text \<open>
  A record as the loaders append it (\<^verbatim>\<open>getProcesses\<close>, \<^verbatim>\<open>getProcessesDirect\<close>):
  the three links are \<open>-1\<close>, \<^verbatim>\<open>Print\<close> is false, the thread count is 1.
\<close>

definition loaded :: "int \<Rightarrow> int \<Rightarrow> int \<Rightarrow> string \<Rightarrow> string \<Rightarrow> Process" where
  "loaded pid ppid pgid owner cmd =
    \<lparr>UID = 0, PID = pid, PPID = ppid, PGID = pgid, Name = owner, Cmd = cmd, Print = False,
     Parent = - 1, Child = - 1, Sister = - 1, ThCount = 1\<rparr>"

section \<open>Root selection\<close>

text \<open>
  \<^verbatim>\<open>for _, proc := range procs { if cond(proc) { return proc.PID } }\<close>: the pid of the
  first record that satisfies the condition, if there is one.
\<close>

fun firstPID :: "(Process \<Rightarrow> bool) \<Rightarrow> Process list \<Rightarrow> int option" where
  "firstPID c [] = None"
| "firstPID c (p # ps) = (if c p then Some (PID p) else firstPID c ps)"

text \<open>\<^verbatim>\<open>getRootPID\<close> of \<^verbatim>\<open>main.go\<close>; the call of \<^verbatim>\<open>os.Exit(1)\<close> is \<open>Inl NoRootProcess\<close>.\<close>

definition getRootPID :: "Process list \<Rightarrow> error + int" where
  "getRootPID ps =
    (case firstPID (\<lambda>p. PID p = 1) ps of
       Some r \<Rightarrow> Inr r
     | None \<Rightarrow>
    (case firstPID (\<lambda>p. PPID p = 0) ps of
       Some r \<Rightarrow> Inr r
     | None \<Rightarrow>
    (case firstPID (\<lambda>p. PPID p = 1) ps of
       Some r \<Rightarrow> Inr r
     | None \<Rightarrow>
    (case firstPID (\<lambda>p. PID p = PPID p) ps of
       Some r \<Rightarrow> Inr r
     | None \<Rightarrow> Inl NoRootProcess))))"

text \<open>
  \<^verbatim>\<open>getTopPID\<close> of \<^verbatim>\<open>process.go\<close>: a pinned pid (\<^verbatim>\<open>config.SearchPid\<close>, here
  \<^const>\<open>IPid\<close>) is returned as it is, otherwise the same four searches run.
\<close>

definition getTopPID :: "Config \<Rightarrow> Process list \<Rightarrow> error + int" where
  "getTopPID cfg ps = (if IPid cfg \<noteq> - 1 then Inr (IPid cfg) else getRootPID ps)"

text \<open>The index \<open>i\<close> holds the first record of the store that satisfies \<open>c\<close>.\<close>

definition isFirst :: "(Process \<Rightarrow> bool) \<Rightarrow> Process list \<Rightarrow> nat \<Rightarrow> bool" where
  "isFirst c ps i \<longleftrightarrow> i < length ps \<and> c (ps ! i) \<and> (\<forall>j<i. \<not> c (ps ! j))"

lemma firstPID_None: "firstPID c ps = None \<longleftrightarrow> (\<forall>p\<in>set ps. \<not> c p)"
  by (induction ps) auto

lemma firstPID_SomeD: "firstPID c ps = Some r \<Longrightarrow> \<exists>p\<in>set ps. c p"
  by (induction ps) (auto split: if_splits)

lemma firstPID_isFirst: "isFirst c ps i \<Longrightarrow> firstPID c ps = Some (PID (ps ! i))"
proof (induction ps arbitrary: i)
  case Nil
  then show ?case by (simp add: isFirst_def)
next
  case (Cons p ps)
  show ?case
  proof (cases i)
    case 0
    with Cons.prems show ?thesis by (simp add: isFirst_def)
  next
    case (Suc k)
    from Cons.prems Suc have "\<not> c p" by (auto simp: isFirst_def)
    moreover from Cons.prems Suc have "isFirst c ps k"
      by (fastforce simp: isFirst_def)
    ultimately show ?thesis using Cons.IH [of k] Suc by simp
  qed
qed

text \<open>
  C7. Root selection takes the first record with pid 1; failing that, the first with
  parent pid 0; failing that, the first with parent pid 1; failing that, the first that
  is its own parent; and it returns that record's pid. It ends fatally exactly when no
  record satisfies any of the four conditions, and in no other way. With no pid pinned,
  \<^const>\<open>getTopPID\<close> does the same.
\<close>

theorem getRootPID_priority:
  "(\<forall>i. isFirst (\<lambda>p. PID p = 1) ps i \<longrightarrow> getRootPID ps = Inr (PID (ps ! i))) \<and>
   (\<forall>i. (\<forall>p\<in>set ps. PID p \<noteq> 1) \<and> isFirst (\<lambda>p. PPID p = 0) ps i \<longrightarrow>
        getRootPID ps = Inr (PID (ps ! i))) \<and>
   (\<forall>i. (\<forall>p\<in>set ps. PID p \<noteq> 1 \<and> PPID p \<noteq> 0) \<and> isFirst (\<lambda>p. PPID p = 1) ps i \<longrightarrow>
        getRootPID ps = Inr (PID (ps ! i))) \<and>
   (\<forall>i. (\<forall>p\<in>set ps. PID p \<noteq> 1 \<and> PPID p \<noteq> 0 \<and> PPID p \<noteq> 1) \<and>
        isFirst (\<lambda>p. PID p = PPID p) ps i \<longrightarrow>
        getRootPID ps = Inr (PID (ps ! i))) \<and>
   (getRootPID ps = Inl NoRootProcess \<longleftrightarrow>
      (\<forall>p\<in>set ps. PID p \<noteq> 1 \<and> PPID p \<noteq> 0 \<and> PPID p \<noteq> 1 \<and> PID p \<noteq> PPID p)) \<and>
   (\<forall>e. getRootPID ps = Inl e \<longrightarrow> e = NoRootProcess) \<and>
   (IPid cfg = - 1 \<longrightarrow> getTopPID cfg ps = getRootPID ps)"
proof -
  have n1: "(\<forall>p\<in>set ps. PID p \<noteq> 1) \<Longrightarrow> firstPID (\<lambda>p. PID p = 1) ps = None"
    by (simp add: firstPID_None)
  have n2: "(\<forall>p\<in>set ps. PPID p \<noteq> 0) \<Longrightarrow> firstPID (\<lambda>p. PPID p = 0) ps = None"
    by (simp add: firstPID_None)
  have n3: "(\<forall>p\<in>set ps. PPID p \<noteq> 1) \<Longrightarrow> firstPID (\<lambda>p. PPID p = 1) ps = None"
    by (simp add: firstPID_None)
  have a: "\<forall>i. isFirst (\<lambda>p. PID p = 1) ps i \<longrightarrow> getRootPID ps = Inr (PID (ps ! i))"
    by (simp add: getRootPID_def firstPID_isFirst)
  have b: "\<forall>i. (\<forall>p\<in>set ps. PID p \<noteq> 1) \<and> isFirst (\<lambda>p. PPID p = 0) ps i \<longrightarrow>
        getRootPID ps = Inr (PID (ps ! i))"
    by (auto simp: getRootPID_def firstPID_isFirst n1)
  have c: "\<forall>i. (\<forall>p\<in>set ps. PID p \<noteq> 1 \<and> PPID p \<noteq> 0) \<and> isFirst (\<lambda>p. PPID p = 1) ps i \<longrightarrow>
        getRootPID ps = Inr (PID (ps ! i))"
    by (auto simp: getRootPID_def firstPID_isFirst n1 n2)
  have d: "\<forall>i. (\<forall>p\<in>set ps. PID p \<noteq> 1 \<and> PPID p \<noteq> 0 \<and> PPID p \<noteq> 1) \<and>
        isFirst (\<lambda>p. PID p = PPID p) ps i \<longrightarrow> getRootPID ps = Inr (PID (ps ! i))"
    by (auto simp: getRootPID_def firstPID_isFirst n1 n2 n3)
  have e: "getRootPID ps = Inl NoRootProcess \<longleftrightarrow>
      (\<forall>p\<in>set ps. PID p \<noteq> 1 \<and> PPID p \<noteq> 0 \<and> PPID p \<noteq> 1 \<and> PID p \<noteq> PPID p)"
    by (auto simp: getRootPID_def firstPID_None split: option.splits dest: firstPID_SomeD)
  have f: "\<forall>e. getRootPID ps = Inl e \<longrightarrow> e = NoRootProcess"
    by (auto simp: getRootPID_def split: option.splits)
  have g: "IPid cfg = - 1 \<longrightarrow> getTopPID cfg ps = getRootPID ps"
    by (simp add: getTopPID_def)
  from a b c d e f g show ?thesis by blast
qed

text \<open>
  The store lists a record with parent pid 0 before the record with pid 1: the root
  is pid 1.
\<close>

theorem getRootPID_priority_witness:
  "isFirst (\<lambda>p. PID p = 1)
     [loaded 5 0 5 ''root'' ''kthreadd'', loaded 1 0 1 ''root'' ''init''] 1 \<and>
   getRootPID [loaded 5 0 5 ''root'' ''kthreadd'', loaded 1 0 1 ''root'' ''init''] = Inr 1 \<and>
   getTopPID initConfig [loaded 5 0 5 ''root'' ''kthreadd'', loaded 1 0 1 ''root'' ''init'']
     = Inr 1"
proof -
  let ?ps = "[loaded 5 0 5 ''root'' ''kthreadd'', loaded 1 0 1 ''root'' ''init'']"
  have h: "isFirst (\<lambda>p. PID p = 1) ?ps 1"
    by (simp add: isFirst_def loaded_def)
  have i: "IPid initConfig = - 1"
    by (simp add: initConfig_def)
  from getRootPID_priority [of ?ps initConfig] h i
  have "getRootPID ?ps = Inr (PID (?ps ! 1))" and "getTopPID initConfig ?ps = getRootPID ?ps"
    by blast+
  with h show ?thesis by (simp add: loaded_def)
qed

section \<open>Rendering\<close>

text \<open>\<^verbatim>\<open>getPidIndex\<close>: the scan \<^verbatim>\<open>for i := len(procs) - 1; i >= 0; i--\<close>, \<open>k\<close> records left.\<close>

fun getPidIndexFrom :: "Process list \<Rightarrow> int \<Rightarrow> nat \<Rightarrow> int" where
  "getPidIndexFrom ps pid 0 = - 1"
| "getPidIndexFrom ps pid (Suc k) =
    (if PID (ps ! k) = pid then int k else getPidIndexFrom ps pid k)"

definition getPidIndex :: "Process list \<Rightarrow> int \<Rightarrow> int" where
  "getPidIndex ps pid = getPidIndexFrom ps pid (length ps)"

text \<open>The verbs \<^verbatim>\<open>%d\<close> and \<^verbatim>\<open>%05d\<close> of \<^verbatim>\<open>fmt.Sprintf\<close> (the sign counts in the width).\<close>

fun decimal :: "nat \<Rightarrow> string" where
  "decimal n =
    (if n < 10 then [''0123456789'' ! n]
     else decimal (n div 10) @ [''0123456789'' ! (n mod 10)])"

declare decimal.simps [simp del]

definition fmtD :: "int \<Rightarrow> string" where
  "fmtD n = (if n < 0 then CHR ''-'' # decimal (nat (- n)) else decimal (nat n))"

definition zeroPad :: "nat \<Rightarrow> string \<Rightarrow> string" where
  "zeroPad width s = replicate (width - length s) CHR ''0'' @ s"

definition fmt05D :: "int \<Rightarrow> string" where
  "fmt05D n =
    (if n < 0 then CHR ''-'' # zeroPad 4 (decimal (nat (- n))) else zeroPad 5 (decimal (nat n)))"

text \<open>
  What the renderer changes: the configuration (for its depth counter
  \<^verbatim>\<open>config.AtLDepth\<close>) and the lines written by \<^verbatim>\<open>fmt.Println\<close>, oldest first.
\<close>

record world =
  config :: Config
  stdout :: "string list"

text \<open>The string \<^verbatim>\<open>out\<close> that \<^verbatim>\<open>printTree\<close> assembles for a record and a prefix.\<close>

definition formatLine :: "Config \<Rightarrow> Process \<Rightarrow> string \<Rightarrow> string" where
  "formatLine cfg p head =
    (let thread = (if ThCount p > 1 then ''['' @ fmtD (ThCount p) @ '']'' else []);
         pgl = (if PID p = PGID p then PGL (TreeChar cfg) else NPGL (TreeChar cfg));
         barChar = (if head = [] then []
                    else if Sister p \<noteq> - 1 then BarC (TreeChar cfg)
                    else BarL (TreeChar cfg));
         pChar = (if Child p \<noteq> - 1 then Pp (TreeChar cfg) else S2 (TreeChar cfg))
     in SG (TreeChar cfg) @ head @ barChar @ pChar @ pgl @ EG (TreeChar cfg) @ '' '' @
        fmt05D (PID p) @ '' '' @ Process.Name p @ '' '' @ thread @ Cmd p)"

text \<open>
  \<^verbatim>\<open>if len(out) > config.Columns-1 { out = out[:config.Columns-1] }\<close>. The slice
  expression panics when its bound is negative.
\<close>

definition truncateLine :: "int \<Rightarrow> string \<Rightarrow> error + string" where
  "truncateLine columns out =
    (if int (length out) > columns - 1
     then (if columns - 1 < 0 then Inl SliceBoundsOutOfRange
           else Inr (take (nat (columns - 1)) out))
     else Inr out)"

text \<open>The prefix \<^verbatim>\<open>nhead\<close> handed to the children.\<close>

definition nextHead :: "Config \<Rightarrow> Process \<Rightarrow> string \<Rightarrow> string" where
  "nextHead cfg p head =
    (if head = [] then []
     else if Sister p \<noteq> - 1 then head @ Bar (TreeChar cfg) @ '' ''
     else head @ ''  '')"

text \<open>
  \<^verbatim>\<open>printTree\<close>, and its loop \<^verbatim>\<open>for child != -1\<close> as \<open>printChildren\<close>. The store is
  only read. Each call and each turn of the loop takes one unit of fuel. The first test
  reads \<^verbatim>\<open>procs[idx]\<close> only when the prefix is empty, as \<^verbatim>\<open>&&\<close> does.
\<close>

fun printTree :: "nat \<Rightarrow> Process list \<Rightarrow> int \<Rightarrow> string \<Rightarrow> world \<Rightarrow> world run"
  and printChildren :: "nat \<Rightarrow> Process list \<Rightarrow> int \<Rightarrow> string \<Rightarrow> world \<Rightarrow> world run"
  where
  "printTree 0 ps idx head w = None"
| "printTree (Suc n) ps idx head w =
    (if head = [] \<and> \<not> valid ps idx then Some (Inl IndexOutOfRange)
     else if head = [] \<and> \<not> Print (ps ! nat idx) then Some (Inr w)
     else if AtLDepth (config w) = MaxLDepth (config w) then Some (Inr w)
     else if \<not> valid ps idx then Some (Inl IndexOutOfRange)
     else
       (let cfg = (config w)\<lparr>AtLDepth := AtLDepth (config w) + 1\<rparr>;
            p = ps ! nat idx
        in case truncateLine (Columns cfg) (formatLine cfg p head) of
             Inl e \<Rightarrow> Some (Inl e)
           | Inr out \<Rightarrow>
              (case printChildren n ps (Child p) (nextHead cfg p head)
                      \<lparr>config = cfg, stdout = stdout w @ [out]\<rparr> of
                 None \<Rightarrow> None
               | Some (Inl e) \<Rightarrow> Some (Inl e)
               | Some (Inr w') \<Rightarrow>
                   Some (Inr (w'\<lparr>config :=
                     (config w')\<lparr>AtLDepth := AtLDepth (config w') - 1\<rparr>\<rparr>)))))"
| "printChildren 0 ps child nhead w = None"
| "printChildren (Suc n) ps child nhead w =
    (if child = - 1 then Some (Inr w)
     else case printTree n ps child nhead w of
            None \<Rightarrow> None
          | Some (Inl e) \<Rightarrow> Some (Inl e)
          | Some (Inr w') \<Rightarrow>
              (if \<not> valid ps child then Some (Inl IndexOutOfRange)
               else printChildren n ps (Sister (ps ! nat child)) nhead w'))"

text \<open>
  The top-level calls of \<^verbatim>\<open>main\<close>: for each requested pid that the store holds,
  \<^verbatim>\<open>printTree(idx, "")\<close>. With no argument the list holds the root pid alone.
\<close>

fun printRoots :: "nat \<Rightarrow> Process list \<Rightarrow> int list \<Rightarrow> world \<Rightarrow> world run" where
  "printRoots n ps [] w = Some (Inr w)"
| "printRoots n ps (pid # pids) w =
    (if getPidIndex ps pid \<noteq> - 1
     then (case printTree n ps (getPidIndex ps pid) [] w of
             None \<Rightarrow> None
           | Some (Inl e) \<Rightarrow> Some (Inl e)
           | Some (Inr w') \<Rightarrow> printRoots n ps pids w')
     else printRoots n ps pids w)"

end
